theory Spec2Isabelle
  imports Complex_Main "HOL-Library.Sublist" "HOL-Library.Multiset"
begin

section \<open>Data model (app/models/internal.py, request.py, response.py)\<close>

text \<open>
  Python floats are modelled by exact rationals: every finite double is a rational
  number, comparisons of doubles are comparisons of those rationals, and the
  arithmetic of the aggregator is read without rounding error.  Python's unbounded
  integers are \<open>int\<close>.
\<close>

datatype RiskCategory =
  TEXT_ANALYSIS | EMAIL_VALIDATION | URL_VALIDATION | PLATFORM_CREDIBILITY | GENERAL

record RiskFactor =
  category :: RiskCategory
  severity :: int
  description :: string
  confidence :: rat

record AnalysisResult =
  risk_factors :: "RiskFactor list"
  result_confidence :: rat
  analyzer_name :: string

datatype VerdictEnum = SAFE | CAUTION | HIGH_RISK

datatype ConfidenceEnum = HIGH | MEDIUM | LOW

record JobAnalysisRequest =
  job_text :: string
  company_url :: "string option"
  recruiter_email :: "string option"
  platform_source :: string

text \<open>
  The service receives the analyzers' results as a dictionary from analyzer key
  to result; it is an association list in insertion order, \<open>.get\<close> is
  \<^const>\<open>map_of\<close> and \<open>.values()\<close> the list of second components.
\<close>

type_synonym analysis_results = "(string \<times> AnalysisResult) list"

section \<open>Python primitives\<close>

text \<open>
  Strings are lists of characters with code points below 256.  \<open>str.isspace\<close>,
  \<open>str.lower\<close>, \<open>str.strip\<close>, \<open>str.split\<close> without argument and the
  substring test \<open>sub in s\<close> are written out on that range.
\<close>

definition py_isspace :: "char \<Rightarrow> bool" where
  "py_isspace c = (let n = (of_char c :: nat) in
     (9 \<le> n \<and> n \<le> 13) \<or> (28 \<le> n \<and> n \<le> 32) \<or> n = 133 \<or> n = 160)"

definition py_lower_char :: "char \<Rightarrow> char" where
  "py_lower_char c = (let n = (of_char c :: nat) in
     if (65 \<le> n \<and> n \<le> 90) \<or> (192 \<le> n \<and> n \<le> 222 \<and> n \<noteq> 215)
     then (case c of Char b0 b1 b2 b3 b4 b5 b6 b7 \<Rightarrow> Char b0 b1 b2 b3 b4 True b6 b7)
     else c)"

definition py_lower :: "string \<Rightarrow> string" where
  "py_lower s = map py_lower_char s"

fun py_in :: "string \<Rightarrow> string \<Rightarrow> bool" where
  "py_in sub [] = (sub = [])"
| "py_in sub (c # cs) = (prefix sub (c # cs) \<or> py_in sub cs)"

definition py_strip :: "string \<Rightarrow> string" where
  "py_strip s = rev (dropWhile py_isspace (rev (dropWhile py_isspace s)))"

fun split_words :: "string \<Rightarrow> string \<Rightarrow> string list" where
  "split_words cur [] = (if cur = [] then [] else [cur])"
| "split_words cur (c # cs) =
     (if py_isspace c then (if cur = [] then split_words [] cs else cur # split_words [] cs)
      else split_words (cur @ [c]) cs)"

definition py_split :: "string \<Rightarrow> string list" where
  "py_split s = split_words [] s"


datatype py_error = ZeroDivisionError | ValueError | IndexError



definition bind_err :: "py_error + 'a \<Rightarrow> ('a \<Rightarrow> py_error + 'b) \<Rightarrow> py_error + 'b" where
  "bind_err m k = (case m of Inl e \<Rightarrow> Inl e | Inr v \<Rightarrow> k v)"

section \<open>The aggregator (app/services/job_analysis_service.py)\<close>

subsection \<open>\<open>_determine_verdict\<close>\<close>

definition verdict_threshold_safe :: int where
  "verdict_threshold_safe = 30"

definition verdict_threshold_caution :: int where
  "verdict_threshold_caution = 65"

definition determine_verdict :: "int \<Rightarrow> VerdictEnum" where
  "determine_verdict risk_score =
     (if risk_score \<le> verdict_threshold_safe then SAFE
      else if risk_score \<le> verdict_threshold_caution then CAUTION
      else HIGH_RISK)"

subsection \<open>\<open>_get_platform_risk_multiplier\<close>\<close>

definition platform_multiplier_step :: "rat \<Rightarrow> RiskFactor \<Rightarrow> rat" where
  "platform_multiplier_step multiplier factor =
     (if py_in ''high fraud'' (py_lower (description factor)) then max multiplier (14 / 10)
      else if py_in ''messaging apps'' (py_lower (description factor)) then max multiplier (13 / 10)
      else if py_in ''social media'' (py_lower (description factor)) then max multiplier (12 / 10)
      else if py_in ''lower credibility'' (py_lower (description factor)) then max multiplier (11 / 10)
      else multiplier)"

definition get_platform_risk_multiplier :: "AnalysisResult option \<Rightarrow> rat" where
  "get_platform_risk_multiplier platform_result =
     (case platform_result of
        None \<Rightarrow> 1
      | Some r \<Rightarrow>
          if risk_factors r = [] then 1
          else foldl platform_multiplier_step 1 (risk_factors r))"

definition applicable_phrase_factors :: "RiskFactor \<Rightarrow> rat set" where
  "applicable_phrase_factors f =
     (if py_in ''high fraud'' (py_lower (description f)) then {14 / 10} else {})
     \<union> (if py_in ''messaging apps'' (py_lower (description f)) then {13 / 10} else {})
     \<union> (if py_in ''social media'' (py_lower (description f)) then {12 / 10} else {})
     \<union> (if py_in ''lower credibility'' (py_lower (description f)) then {11 / 10} else {})"

definition platform_phrase_factors :: "AnalysisResult \<Rightarrow> rat set" where
  "platform_phrase_factors r = (\<Union>f \<in> set (risk_factors r). applicable_phrase_factors f)"

subsection \<open>Scores, professional bonus, confidence level and flags\<close>















definition has_content :: "string \<Rightarrow> bool" where
  "has_content s = (s \<noteq> [] \<and> py_strip s \<noteq> [])"

definition opt_has_content :: "string option \<Rightarrow> bool" where
  "opt_has_content v = (case v of None \<Rightarrow> False | Some s \<Rightarrow> has_content s)"

definition metadata_completeness :: "JobAnalysisRequest \<Rightarrow> rat" where
  "metadata_completeness request =
     (let has_email = opt_has_content (recruiter_email request);
          has_url = opt_has_content (company_url request);
          has_platform = has_content (platform_source request)
      in of_nat (sum_list [of_bool has_email, of_bool has_url, of_bool has_platform]) / 3)"

definition text_confidence_of :: "analysis_results \<Rightarrow> rat" where
  "text_confidence_of ar =
     (case map_of ar ''text'' of Some t \<Rightarrow> result_confidence t | None \<Rightarrow> 1 / 2)"

definition factors_of :: "analysis_results \<Rightarrow> string \<Rightarrow> RiskFactor list" where
  "factors_of ar key = (case map_of ar key of Some r \<Rightarrow> risk_factors r | None \<Rightarrow> [])"

definition high_risk_text :: "analysis_results \<Rightarrow> bool" where
  "high_risk_text ar = list_ex (\<lambda>f. severity f \<ge> 70) (factors_of ar ''text'')"

definition high_risk_metadata :: "analysis_results \<Rightarrow> bool" where
  "high_risk_metadata ar =
     list_ex (\<lambda>f. severity f \<ge> 70) (factors_of ar ''email'' @ factors_of ar ''url'')"

definition calculate_confidence_level :: "analysis_results \<Rightarrow> JobAnalysisRequest \<Rightarrow> ConfidenceEnum" where
  "calculate_confidence_level ar request =
     (let text_confidence = text_confidence_of ar;
          fallthrough =
            (if text_confidence \<ge> 7 / 10 \<and> length (py_split (job_text request)) \<ge> 50
             then MEDIUM else LOW)
      in if metadata_completeness request \<ge> 67 / 100 \<and> text_confidence \<ge> 8 / 10 then
           (if \<not> (high_risk_text ar \<and> \<not> high_risk_metadata ar)
               \<and> \<not> (high_risk_metadata ar \<and> \<not> high_risk_text ar)
            then HIGH else fallthrough)
         else fallthrough)"




subsection \<open>Reference formulations of the confidence label\<close>

definition signals_contradictory :: "analysis_results \<Rightarrow> bool" where
  "signals_contradictory ar =
     ((high_risk_text ar \<and> \<not> high_risk_metadata ar)
      \<or> (high_risk_metadata ar \<and> \<not> high_risk_text ar))"

definition all_metadata_present :: "JobAnalysisRequest \<Rightarrow> bool" where
  "all_metadata_present request =
     (opt_has_content (recruiter_email request) \<and> opt_has_content (company_url request)
      \<and> has_content (platform_source request))"

definition request_two_of_three :: JobAnalysisRequest where
  "request_two_of_three =
     \<lparr>job_text = ''We are hiring a Software Engineer with Python experience.'',
      company_url = None, recruiter_email = Some ''hr@example.com'',
      platform_source = ''LinkedIn''\<rparr>"

definition results_two_of_three :: analysis_results where
  "results_two_of_three =
     [(''text'', \<lparr>risk_factors = [], result_confidence = 9 / 10, analyzer_name = ''TextAnalyzer''\<rparr>),
      (''email'', \<lparr>risk_factors = [], result_confidence = 9 / 10, analyzer_name = ''EmailAnalyzer''\<rparr>),
      (''url'', \<lparr>risk_factors = [], result_confidence = 1, analyzer_name = ''URLAnalyzer''\<rparr>),
      (''platform'', \<lparr>risk_factors = [], result_confidence = 95 / 100, analyzer_name = ''PlatformAnalyzer''\<rparr>)]"

subsection \<open>Reference formulation of the flags list\<close>

fun dedup_by_description :: "RiskFactor list \<Rightarrow> RiskFactor list" where
  "dedup_by_description [] = []"
| "dedup_by_description (f # fs) =
     f # filter (\<lambda>g. description g \<noteq> description f) (dedup_by_description fs)"




subsection \<open>Reference notions for the category scores\<close>





subsection \<open>Well-formed inputs and a worked example\<close>





subsection \<open>Reference formulation of the professional bonus\<close>






section \<open>The text analyzer (app/analyzers/text_analyzer.py)\<close>



definition digit_char :: "nat \<Rightarrow> char" where
  "digit_char d = char_of (48 + d)"

function py_str_nat :: "nat \<Rightarrow> string" where
  "py_str_nat n = (if n < 10 then [digit_char n] else py_str_nat (n div 10) @ [digit_char (n mod 10)])"
  by pat_completeness auto
termination
  by (relation "measure id") auto

declare py_str_nat.simps [simp del]















section \<open>The email analyzer (app/analyzers/email_analyzer.py)\<close>

text \<open>
  The parameter \<open>re\<close> answers whether a compiled pattern matches (for
  \<open>email_pattern.match\<close>, \<open>pattern.search\<close> and \<open>re.search\<close>, as each use in
  the source has it).  Indexing a list of split parts is fallible.
\<close>

fun py_split_on :: "char \<Rightarrow> string \<Rightarrow> string list" where
  "py_split_on sep [] = [[]]"
| "py_split_on sep (c # cs) =
     (if c = sep then [] # py_split_on sep cs
      else (case py_split_on sep cs of
              [] \<Rightarrow> [[c]]
            | w # ws \<Rightarrow> (c # w) # ws))"

definition py_count_char :: "char \<Rightarrow> string \<Rightarrow> nat" where
  "py_count_char c s = length (filter (\<lambda>x. x = c) s)"

definition py_index :: "'a list \<Rightarrow> nat \<Rightarrow> py_error + 'a" where
  "py_index xs i = (if i < length xs then Inr (xs ! i) else Inl IndexError)"

datatype email_regex =
  email_pattern | email_temp_email | email_random_chars | email_numbers_only
  | email_suspicious_tlds | email_random_domains
  | email_finance_words | email_urgency_words | email_triple_x | email_six_digits

definition major_providers :: "string list" where
  "major_providers =
     [''gmail.com'', ''yahoo.com'', ''hotmail.com'', ''outlook.com'',
      ''aol.com'', ''icloud.com'', ''protonmail.com'', ''zoho.com'']"

definition disposable_domains :: "string list" where
  "disposable_domains =
     [''10minutemail.com'', ''tempmail.org'', ''guerrillamail.com'',
      ''mailinator.com'', ''throwaway.email'', ''temp-mail.org'',
      ''fakeinbox.com'', ''dispostable.com'', ''yopmail.com'']"

definition very_new_tlds :: "string list" where
  "very_new_tlds = [''.tk'', ''.ml'', ''.ga'', ''.cf'', ''.click'', ''.download'', ''.zip'']"

definition typosquatting_email_domains :: "string list" where
  "typosquatting_email_domains = [''gmai1.com'', ''yaho0.com'', ''hotmai1.com'', ''outlok.com'']"

definition email_factor :: "int \<Rightarrow> string \<Rightarrow> rat \<Rightarrow> RiskFactor" where
  "email_factor sev desc conf =
     \<lparr>category = EMAIL_VALIDATION, severity = sev, description = desc, confidence = conf\<rparr>"

definition validate_email_format ::
    "(email_regex \<Rightarrow> string \<Rightarrow> bool) \<Rightarrow> string \<Rightarrow> RiskFactor list
      \<Rightarrow> py_error + (bool \<times> RiskFactor list)" where
  "validate_email_format re email factors =
     (if \<not> re email_pattern email then
        Inr (False, factors @ [email_factor 90 ''Invalid email format'' 1])
      else if py_count_char (CHR ''@'') email \<noteq> 1 then
        Inr (False, factors @ [email_factor 95 ''Email contains multiple @ symbols'' 1])
      else
        (case py_split_on (CHR ''@'') email of
           [username, domain] \<Rightarrow>
             if length username < 1 then
               Inr (False, factors @ [email_factor 100 ''Email username is empty'' 1])
             else
               (let factors1 =
                      (if length username > 64
                       then factors @ [email_factor 60 ''Email username exceeds recommended length'' (8 / 10)]
                       else factors);
                    factors2 =
                      (if length domain > 253
                       then factors1 @ [email_factor 70 ''Email domain exceeds maximum length'' (9 / 10)]
                       else factors1)
                in Inr (True, factors2))
         | _ \<Rightarrow> Inl ValueError))"

definition email_suspicious_patterns :: "(email_regex \<times> int \<times> string) list" where
  "email_suspicious_patterns =
     [(email_temp_email, 85, ''Uses temporary/disposable email service''),
      (email_random_chars, 60, ''Username appears to be randomly generated''),
      (email_numbers_only, 40, ''Username contains only numbers''),
      (email_suspicious_tlds, 70, ''Uses suspicious top-level domain'')]"

fun email_patterns_loop ::
    "(email_regex \<Rightarrow> string \<Rightarrow> bool) \<Rightarrow> (email_regex \<times> int \<times> string) list \<Rightarrow> string
      \<Rightarrow> RiskFactor list \<Rightarrow> RiskFactor list" where
  "email_patterns_loop re [] email factors = factors"
| "email_patterns_loop re ((pattern, sev, desc) # rest) email factors =
     (if re pattern email
      then email_patterns_loop re rest email (factors @ [email_factor sev desc (8 / 10)])
      else email_patterns_loop re rest email factors)"

definition email_check_suspicious_patterns ::
    "(email_regex \<Rightarrow> string \<Rightarrow> bool) \<Rightarrow> string \<Rightarrow> RiskFactor list \<Rightarrow> RiskFactor list" where
  "email_check_suspicious_patterns re email factors =
     email_patterns_loop re email_suspicious_patterns email factors"

definition check_domain_reputation ::
    "(email_regex \<Rightarrow> string \<Rightarrow> bool) \<Rightarrow> string \<Rightarrow> RiskFactor list \<Rightarrow> RiskFactor list" where
  "check_domain_reputation re domain factors =
     (if domain \<in> set disposable_domains then
        factors @ [email_factor 80 ''Uses known disposable email domain'' (9 / 10)]
      else
        (let factors1 =
               (if domain \<in> set typosquatting_email_domains
                then factors @ [email_factor 75
                       ''Domain appears to be typosquatting a legitimate service'' (8 / 10)]
                else factors);
             factors2 =
               (case find (\<lambda>tld. suffix tld domain) very_new_tlds of
                  Some tld \<Rightarrow>
                    factors1 @ [email_factor 50 (''Uses potentially suspicious TLD: '' @ tld) (6 / 10)]
                | None \<Rightarrow> factors1)
         in if re email_random_domains domain
            then factors2 @ [email_factor 55 ''Domain name appears randomly generated'' (7 / 10)]
            else factors2))"

definition disposable_keywords :: "string list" where
  "disposable_keywords = [''temp'', ''throw'', ''disposable'', ''fake'', ''10min'', ''guerrilla'']"

definition check_disposable_email :: "string \<Rightarrow> RiskFactor list \<Rightarrow> RiskFactor list" where
  "check_disposable_email domain factors =
     (case find (\<lambda>keyword. py_in keyword domain) disposable_keywords of
        Some keyword \<Rightarrow>
          factors @ [email_factor 70
            (''Domain contains disposable email indicator: '' @ [CHR 0x27] @ keyword @ [CHR 0x27])
            (7 / 10)]
      | None \<Rightarrow> factors)"

definition email_suspicious_keywords :: "string list" where
  "email_suspicious_keywords =
     [''money'', ''cash'', ''urgent'', ''immediate'', ''quick'', ''easy'', ''guaranteed'']"

definition highly_unprofessional_patterns :: "email_regex list" where
  "highly_unprofessional_patterns =
     [email_finance_words, email_urgency_words, email_triple_x, email_six_digits]"

definition check_suspicious_email_characteristics ::
    "(email_regex \<Rightarrow> string \<Rightarrow> bool) \<Rightarrow> string \<Rightarrow> string \<Rightarrow> RiskFactor list
      \<Rightarrow> py_error + RiskFactor list" where
  "check_suspicious_email_characteristics re email domain factors =
     bind_err (py_index (py_split_on (CHR ''@'') email) 0) (\<lambda>username.
       (let factors1 =
              (if domain \<in> set major_providers
                  \<and> list_ex (\<lambda>keyword. py_in keyword (py_lower username)) email_suspicious_keywords
               then factors @ [email_factor 60 ''Personal email with finance/urgency keywords'' (7 / 10)]
               else factors)
        in Inr (if list_ex (\<lambda>pattern. re pattern username) highly_unprofessional_patterns
                then factors1 @ [email_factor 50 ''Email username contains suspicious keywords'' (7 / 10)]
                else factors1)))"

definition email_calculate_confidence :: "string \<Rightarrow> bool \<Rightarrow> nat \<Rightarrow> py_error + rat" where
  "email_calculate_confidence email format_valid risk_factor_count =
     (if \<not> format_valid then Inr (min 1 (9 / 10))
      else
        bind_err
          (if CHR ''@'' \<in> set email then
             bind_err (py_index (py_split_on (CHR ''@'') email) 1) (\<lambda>domain.
               Inr (if length domain > 0 then 8 / 10 + 1 / 10 else 8 / 10))
           else Inr (8 / 10))
          (\<lambda>base1.
            Inr (min 1 (if risk_factor_count > 0
                        then base1 + min (1 / 10) (of_nat risk_factor_count * (2 / 100))
                        else base1))))"

definition EmailAnalyzer_analyze ::
    "(email_regex \<Rightarrow> string \<Rightarrow> bool) \<Rightarrow> string option \<Rightarrow> py_error + AnalysisResult" where
  "EmailAnalyzer_analyze re email_input =
     (case email_input of
        None \<Rightarrow> Inr \<lparr>risk_factors = [], result_confidence = 1, analyzer_name = ''EmailAnalyzer''\<rparr>
      | Some raw \<Rightarrow>
          if raw = [] \<or> py_strip raw = [] then
            Inr \<lparr>risk_factors = [], result_confidence = 1, analyzer_name = ''EmailAnalyzer''\<rparr>
          else
            (let email = py_lower (py_strip raw)
             in bind_err (validate_email_format re email []) (\<lambda>(format_valid, factors0).
                bind_err
                  (if format_valid then
                     bind_err (py_index (py_split_on (CHR ''@'') email) 1) (\<lambda>domain.
                       (let factors1 = email_check_suspicious_patterns re email factors0;
                            factors2 = check_domain_reputation re domain factors1;
                            factors3 = check_disposable_email domain factors2
                        in check_suspicious_email_characteristics re email domain factors3))
                   else Inr factors0)
                  (\<lambda>factors.
                bind_err (email_calculate_confidence email format_valid (length factors)) (\<lambda>conf.
                Inr \<lparr>risk_factors = factors, result_confidence = conf,
                     analyzer_name = ''EmailAnalyzer''\<rparr>)))))"

section \<open>The URL analyzer (app/analyzers/url_analyzer.py)\<close>

text \<open>
  \<open>urlparse\<close> of the standard library is a parameter as well: it raises or returns
  the parsed parts, of which the analyzer reads scheme, netloc and port (reading the port
  can itself raise).
\<close>

datatype url_regex =
  url_pattern | url_ip_address | url_suspicious_tlds | url_shorteners
  | url_excessive_subdomains | url_suspicious_keywords | url_random_domains
  | url_random_suspicious_tld

record parsed_url =
  url_scheme :: string
  url_netloc :: string
  url_port :: "py_error + int option"

definition url_factor :: "int \<Rightarrow> string \<Rightarrow> rat \<Rightarrow> RiskFactor" where
  "url_factor sev desc conf =
     \<lparr>category = URL_VALIDATION, severity = sev, description = desc, confidence = conf\<rparr>"

definition typosquatting_url_domains :: "string list" where
  "typosquatting_url_domains =
     [''gooogle.com'', ''microsooft.com'', ''amazoon.com'', ''facebok.com'',
      ''linkedinn.com'', ''appple.com'', ''netflixx.com'']"

definition generic_suspicious_domains :: "string list" where
  "generic_suspicious_domains =
     [''example.com'', ''test.com'', ''demo.com'', ''temp.com'',
      ''fake.com'', ''scam.com'', ''phishing.com'']"

definition suspicious_ports :: "int list" where
  "suspicious_ports = [8080, 8000, 3000, 4000, 5000, 9000, 9999]"

definition validate_url_format ::
    "(url_regex \<Rightarrow> string \<Rightarrow> bool) \<Rightarrow> (string \<Rightarrow> py_error + parsed_url) \<Rightarrow> string
      \<Rightarrow> RiskFactor list \<Rightarrow> bool \<times> RiskFactor list" where
  "validate_url_format re urlparse url factors =
     (if \<not> re url_pattern url then
        (False, factors @ [url_factor 90 ''Invalid URL format'' 1])
      else
        (case urlparse url of
           Inl e \<Rightarrow> (False, factors @ [url_factor 85 ''URL cannot be parsed properly'' (9 / 10)])
         | Inr parsed \<Rightarrow>
             if url_scheme parsed = [] \<or> url_scheme parsed \<notin> set [''http'', ''https''] then
               (False, factors @ [url_factor 80 ''Missing or invalid URL scheme (http/https)'' (9 / 10)])
             else if url_netloc parsed = [] then
               (False, factors @ [url_factor 95 ''Missing domain in URL'' 1])
             else if length url > 2000 then
               (True, factors @ [url_factor 50 ''URL is unusually long'' (7 / 10)])
             else (True, factors)))"

definition url_suspicious_patterns :: "(url_regex \<times> int \<times> string) list" where
  "url_suspicious_patterns =
     [(url_ip_address, 70, ''Uses IP address instead of domain name''),
      (url_suspicious_tlds, 60, ''Uses suspicious top-level domain''),
      (url_shorteners, 75, ''Uses URL shortening service''),
      (url_excessive_subdomains, 55, ''Has excessive number of subdomains''),
      (url_suspicious_keywords, 65, ''Contains suspicious keywords in domain''),
      (url_random_domains, 50, ''Domain appears randomly generated'')]"

fun url_patterns_loop ::
    "(url_regex \<Rightarrow> string \<Rightarrow> bool) \<Rightarrow> (url_regex \<times> int \<times> string) list \<Rightarrow> string
      \<Rightarrow> RiskFactor list \<Rightarrow> RiskFactor list" where
  "url_patterns_loop re [] url factors = factors"
| "url_patterns_loop re ((pattern, sev, desc) # rest) url factors =
     (if re pattern url
      then url_patterns_loop re rest url (factors @ [url_factor sev desc (8 / 10)])
      else url_patterns_loop re rest url factors)"

definition url_check_suspicious_patterns ::
    "(url_regex \<Rightarrow> string \<Rightarrow> bool) \<Rightarrow> string \<Rightarrow> RiskFactor list \<Rightarrow> RiskFactor list" where
  "url_check_suspicious_patterns re url factors =
     url_patterns_loop re url_suspicious_patterns url factors"

definition py_isdigit_char :: "char \<Rightarrow> bool" where
  "py_isdigit_char c = (let n = (of_char c :: nat) in
     (48 \<le> n \<and> n \<le> 57) \<or> n = 178 \<or> n = 179 \<or> n = 185)"

definition py_isdigit :: "string \<Rightarrow> bool" where
  "py_isdigit s = (s \<noteq> [] \<and> list_all py_isdigit_char s)"

definition check_suspicious_domain_characteristics ::
    "(url_regex \<Rightarrow> string \<Rightarrow> bool) \<Rightarrow> parsed_url \<Rightarrow> RiskFactor list
      \<Rightarrow> py_error + RiskFactor list" where
  "check_suspicious_domain_characteristics re parsed factors =
     bind_err
       (if CHR '':'' \<in> set (py_lower (url_netloc parsed))
        then py_index (py_split_on (CHR '':'') (py_lower (url_netloc parsed))) 0
        else Inr (py_lower (url_netloc parsed)))
       (\<lambda>domain.
          if domain \<in> set typosquatting_url_domains then
            Inr (factors @ [url_factor 85 ''Domain is known to be suspicious (typosquatting)'' (9 / 10)])
          else if domain \<in> set generic_suspicious_domains then
            Inr (factors @ [url_factor 90 ''Domain is known to be suspicious (generic_suspicious)'' (9 / 10)])
          else
            (let domain_parts = py_split_on (CHR ''.'') domain
             in bind_err (py_index domain_parts 0) (\<lambda>part0.
                  (let factors1 =
                         (if length domain_parts \<ge> 2 \<and> py_isdigit part0
                          then factors @ [url_factor 70 ''Domain name consists only of numbers'' (8 / 10)]
                          else factors);
                       factors2 =
                         (if py_count_char (CHR ''-'') part0 > 4
                          then factors1 @ [url_factor 50 ''Domain contains excessive hyphens'' (7 / 10)]
                          else factors1)
                   in Inr (if re url_random_suspicious_tld domain
                           then factors2 @ [url_factor 65 ''Random domain with suspicious TLD'' (8 / 10)]
                           else factors2)))))"

definition shortener_services :: "string list" where
  "shortener_services =
     [''bit.ly'', ''tinyurl.com'', ''t.co'', ''goo.gl'', ''short.link'',
      ''ow.ly'', ''is.gd'', ''buff.ly'', ''rebrand.ly'', ''cutt.ly'']"

definition check_url_shorteners :: "string \<Rightarrow> RiskFactor list \<Rightarrow> RiskFactor list" where
  "check_url_shorteners url factors =
     (case find (\<lambda>service. py_in service (py_lower url)) shortener_services of
        Some service \<Rightarrow>
          factors @ [url_factor 70 (''Uses URL shortening service ('' @ service @ '')'') (8 / 10)]
      | None \<Rightarrow> factors)"

definition check_suspicious_ports :: "parsed_url \<Rightarrow> RiskFactor list \<Rightarrow> py_error + RiskFactor list" where
  "check_suspicious_ports parsed factors =
     bind_err (url_port parsed) (\<lambda>port.
       (case port of
          None \<Rightarrow> Inr factors
        | Some p \<Rightarrow>
            if p \<noteq> 0 \<and> p \<in> set suspicious_ports then
              Inr (factors @ [url_factor 45
                     (''Uses potentially suspicious port number: '' @ py_str_nat (nat p)) (6 / 10)])
            else Inr factors))"

definition url_calculate_confidence ::
    "(string \<Rightarrow> py_error + parsed_url) \<Rightarrow> string \<Rightarrow> bool \<Rightarrow> nat \<Rightarrow> rat" where
  "url_calculate_confidence urlparse url format_valid risk_factor_count =
     (if \<not> format_valid then min 1 (9 / 10)
      else
        (let base1 =
               (case urlparse url of
                  Inl e \<Rightarrow> 8 / 10
                | Inr parsed \<Rightarrow>
                    if url_netloc parsed \<noteq> [] \<and> url_scheme parsed \<noteq> []
                    then 8 / 10 + 1 / 10 else 8 / 10)
         in min 1 (if risk_factor_count > 0
                   then base1 + min (1 / 10) (of_nat risk_factor_count * (2 / 100))
                   else base1)))"

definition URLAnalyzer_analyze ::
    "(url_regex \<Rightarrow> string \<Rightarrow> bool) \<Rightarrow> (string \<Rightarrow> py_error + parsed_url) \<Rightarrow> string option
      \<Rightarrow> py_error + AnalysisResult" where
  "URLAnalyzer_analyze re urlparse url_input =
     (case url_input of
        None \<Rightarrow> Inr \<lparr>risk_factors = [], result_confidence = 1, analyzer_name = ''URLAnalyzer''\<rparr>
      | Some raw \<Rightarrow>
          if raw = [] \<or> py_strip raw = [] then
            Inr \<lparr>risk_factors = [], result_confidence = 1, analyzer_name = ''URLAnalyzer''\<rparr>
          else
            (let url = py_strip raw
             in (case validate_url_format re urlparse url [] of
                   (format_valid, factors0) \<Rightarrow>
                     bind_err
                       (if format_valid then
                          bind_err (urlparse url) (\<lambda>parsed.
                            (let factors1 = url_check_suspicious_patterns re url factors0
                             in bind_err (check_suspicious_domain_characteristics re parsed factors1)
                                  (\<lambda>factors2.
                                    (let factors3 = check_url_shorteners url factors2
                                     in check_suspicious_ports parsed factors3))))
                        else Inr factors0)
                       (\<lambda>factors.
                          Inr \<lparr>risk_factors = factors,
                               result_confidence =
                                 url_calculate_confidence urlparse url format_valid (length factors),
                               analyzer_name = ''URLAnalyzer''\<rparr>))))"

section \<open>The platform analyzer (app/analyzers/platform_analyzer.py)\<close>

















section \<open>The service entry point (job_analysis_service.py, \<open>analyze_job_posting\<close>)\<close>





subsection \<open>Shapes of the findings that the analyzers produce\<close>












subsection \<open>Sums and summaries of one category\<close>






section \<open>Properties\<close>

subsection \<open>Verdict thresholds\<close>

text \<open>
  Claim C3.  For every final risk score (an integer of the range 0..100) the verdict
  is the fixed-threshold classification: Safe exactly for scores up to 30, Caution
  exactly for scores 31..65, HighRisk exactly for scores 66..100.
\<close>

theorem determine_verdict_thresholds:
  assumes "0 \<le> s" and "s \<le> 100"
  shows "(determine_verdict s = SAFE \<longleftrightarrow> s \<le> 30)
       \<and> (determine_verdict s = CAUTION \<longleftrightarrow> 31 \<le> s \<and> s \<le> 65)
       \<and> (determine_verdict s = HIGH_RISK \<longleftrightarrow> 66 \<le> s \<and> s \<le> 100)"
  using assms
  by (auto simp: determine_verdict_def verdict_threshold_safe_def verdict_threshold_caution_def)

theorem determine_verdict_thresholds_witness:
  "determine_verdict 30 = SAFE \<and> determine_verdict 31 = CAUTION
   \<and> determine_verdict 65 = CAUTION \<and> determine_verdict 66 = HIGH_RISK"
  using determine_verdict_thresholds [of 30] determine_verdict_thresholds [of 31]
    determine_verdict_thresholds [of 65] determine_verdict_thresholds [of 66]
  by simp

subsection \<open>Platform multiplier\<close>

lemma finite_applicable: "finite (applicable_phrase_factors f)"
  by (simp add: applicable_phrase_factors_def)

lemma applicable_gt1: "x \<in> applicable_phrase_factors f \<Longrightarrow> 1 < x"
  by (auto simp: applicable_phrase_factors_def split: if_splits)

lemma step_Max:
  "platform_multiplier_step m f = Max (insert m (applicable_phrase_factors f))"
  by (simp add: platform_multiplier_step_def applicable_phrase_factors_def max_def)

lemma Max_insert_Max:
  fixes m :: "'a::linorder"
  assumes "finite A" and "finite B"
  shows "Max (insert (Max (insert m A)) B) = Max (insert m (A \<union> B))"
proof (cases "B = {}")
  case True
  then show ?thesis by simp
next
  case False
  have "Max (insert m (A \<union> B)) = Max (insert m A \<union> B)" by simp
  also have "\<dots> = max (Max (insert m A)) (Max B)"
    using assms False by (intro Max.union) auto
  also have "\<dots> = Max (insert (Max (insert m A)) B)"
    using assms False by simp
  finally show ?thesis by simp
qed

lemma foldl_step_Max:
  "foldl platform_multiplier_step m fs
     = Max (insert m (\<Union>f \<in> set fs. applicable_phrase_factors f))"
proof (induction fs arbitrary: m)
  case Nil
  show ?case by simp
next
  case (Cons f fs)
  let ?A = "applicable_phrase_factors f"
  let ?B = "\<Union>g \<in> set fs. applicable_phrase_factors g"
  have fin: "finite ?A" "finite ?B" by (simp_all add: finite_applicable)
  have "foldl platform_multiplier_step m (f # fs)
          = Max (insert (Max (insert m ?A)) ?B)"
    by (simp add: Cons.IH step_Max)
  also have "\<dots> = Max (insert m ?A \<union> ?B)"
    using Max_insert_Max [OF fin, of m] by simp
  finally show ?case by simp
qed

text \<open>
  Claim C6.  The multiplier read from a platform result is the maximum, over all its
  findings, of the factors of the phrases their lower-cased descriptions contain
  ("high fraud" 1.4, "messaging apps" 1.3, "social media" 1.2, "lower credibility" 1.1),
  and 1.0 when no finding contains any of the phrases (or no platform result exists).
\<close>

theorem get_platform_risk_multiplier_max:
  "get_platform_risk_multiplier None = 1 \<and>
   get_platform_risk_multiplier (Some r) =
     (if platform_phrase_factors r = {} then 1 else Max (platform_phrase_factors r))"
proof -
  let ?A = "platform_phrase_factors r"
  have fin: "finite ?A" by (simp add: platform_phrase_factors_def finite_applicable)
  have gt: "\<And>x. x \<in> ?A \<Longrightarrow> 1 < x"
    by (auto simp: platform_phrase_factors_def dest: applicable_gt1)
  have eq: "get_platform_risk_multiplier (Some r) = Max (insert 1 ?A)"
    by (simp add: get_platform_risk_multiplier_def foldl_step_Max platform_phrase_factors_def)
  have "get_platform_risk_multiplier (Some r) = (if ?A = {} then 1 else Max ?A)"
  proof (cases "?A = {}")
    case True
    then show ?thesis using eq by simp
  next
    case False
    then obtain x where "x \<in> ?A" by blast
    then have "1 < Max ?A" using fin gt Max_ge[OF fin] by (meson less_le_trans)
    then show ?thesis using eq fin False by (simp add: max_def)
  qed
  then show ?thesis by (simp add: get_platform_risk_multiplier_def)
qed

theorem get_platform_risk_multiplier_max_witness:
  "get_platform_risk_multiplier
     (Some \<lparr>risk_factors =
        [\<lparr>category = PLATFORM_CREDIBILITY, severity = 50,
          description = ''Platform has lower credibility rating'', confidence = 8 / 10\<rparr>,
         \<lparr>category = PLATFORM_CREDIBILITY, severity = 60,
          description = ''Messaging apps are commonly used for scams'', confidence = 8 / 10\<rparr>],
        result_confidence = 1, analyzer_name = ''PlatformAnalyzer''\<rparr>) = 13 / 10"
  using get_platform_risk_multiplier_max
    [of "\<lparr>risk_factors =
        [\<lparr>category = PLATFORM_CREDIBILITY, severity = 50,
          description = ''Platform has lower credibility rating'', confidence = 8 / 10\<rparr>,
         \<lparr>category = PLATFORM_CREDIBILITY, severity = 60,
          description = ''Messaging apps are commonly used for scams'', confidence = 8 / 10\<rparr>],
        result_confidence = 1, analyzer_name = ''PlatformAnalyzer''\<rparr>"]
  by (simp add: platform_phrase_factors_def applicable_phrase_factors_def
      py_lower_def py_lower_char_def)

subsection \<open>Confidence label\<close>

lemma metadata_completeness_ge_iff:
  "67 / 100 \<le> metadata_completeness request \<longleftrightarrow> all_metadata_present request"
  by (simp add: metadata_completeness_def all_metadata_present_def Let_def)

lemma has_content_examples:
  "has_content ''LinkedIn''" "has_content ''hr@example.com''"
  by (simp_all add: has_content_def py_strip_def py_isspace_def)

text \<open>
  Claim C1, as the code has it.  The label is High exactly when all three of
  recruiter email, company URL and platform source are non-empty (the threshold on
  the completeness fraction is 0.67, which two fields out of three, 2/3, do not
  reach), the text analyzer's confidence is at least 0.8, and the signals are not
  contradictory.
\<close>

theorem confidence_high_iff:
  "calculate_confidence_level ar request = HIGH \<longleftrightarrow>
     all_metadata_present request \<and> 8 / 10 \<le> text_confidence_of ar
     \<and> \<not> signals_contradictory ar"
  unfolding calculate_confidence_level_def Let_def metadata_completeness_ge_iff
    signals_contradictory_def
  by auto

theorem confidence_high_iff_witness:
  "calculate_confidence_level results_two_of_three
     (request_two_of_three\<lparr>company_url := Some ''https://example.com''\<rparr>) = HIGH"
  using confidence_high_iff [of results_two_of_three
      "request_two_of_three\<lparr>company_url := Some ''https://example.com''\<rparr>"]
  by (simp add: request_two_of_three_def results_two_of_three_def all_metadata_present_def
      text_confidence_of_def signals_contradictory_def high_risk_text_def high_risk_metadata_def
      factors_of_def opt_has_content_def has_content_def py_strip_def py_isspace_def)

text \<open>
  With the email and the platform given and no URL, completeness is 2/3, the text
  confidence is 0.9 and no finding has severity 70 or more, yet the label is not High.
\<close>

theorem confidence_high_two_thirds_counterexample:
  "2 / 3 \<le> metadata_completeness request_two_of_three
   \<and> 8 / 10 \<le> text_confidence_of results_two_of_three
   \<and> \<not> signals_contradictory results_two_of_three
   \<and> calculate_confidence_level results_two_of_three request_two_of_three \<noteq> HIGH"
  by (simp add: request_two_of_three_def results_two_of_three_def metadata_completeness_def
      text_confidence_of_def signals_contradictory_def high_risk_text_def high_risk_metadata_def
      factors_of_def calculate_confidence_level_def opt_has_content_def has_content_examples
      py_split_def py_isspace_def)

subsection \<open>Flags\<close>



lemma descriptions_dedup:
  "description ` set (dedup_by_description xs) = description ` set xs"
proof (induction xs)
  case Nil
  show ?case by simp
next
  case (Cons x xs)
  have "description ` set (filter (\<lambda>g. description g \<noteq> description x) (dedup_by_description xs))
      = description ` set (dedup_by_description xs) - {description x}"
    by auto
  then show ?case using Cons.IH by auto
qed


lemma subseq_dedup: "subseq (dedup_by_description xs) xs"
proof (induction xs)
  case Nil
  show ?case by simp
next
  case (Cons x xs)
  have "subseq (filter (\<lambda>g. description g \<noteq> description x) (dedup_by_description xs))
          (dedup_by_description xs)"
    by simp
  then have "subseq (filter (\<lambda>g. description g \<noteq> description x) (dedup_by_description xs)) xs"
    using Cons.IH subseq_order.order_trans by blast
  then show ?case by simp
qed












subsection \<open>Category scores\<close>
















subsection \<open>Totality and range of the risk score\<close>












subsection \<open>Professional bonus and the order of the adjustments\<close>





lemma py_in_empty: "py_in sub [] \<longleftrightarrow> sub = []"
  by simp












subsection \<open>Confidence of the text analyzer\<close>




subsection \<open>Absent optional fields\<close>

text \<open>
  Claim C9.  For a missing, empty or whitespace-only recruiter email the email analyzer
  returns no finding and confidence 1.0, and for a missing, empty or whitespace-only
  company URL the URL analyzer returns no finding and confidence 1.0.
\<close>

theorem absent_optional_fields_neutral:
  "(\<not> opt_has_content e \<longrightarrow>
      EmailAnalyzer_analyze re_email e
        = Inr \<lparr>risk_factors = [], result_confidence = 1, analyzer_name = ''EmailAnalyzer''\<rparr>)
   \<and> (\<not> opt_has_content u \<longrightarrow>
      URLAnalyzer_analyze re_url urlparse u
        = Inr \<lparr>risk_factors = [], result_confidence = 1, analyzer_name = ''URLAnalyzer''\<rparr>)"
  by (auto simp: EmailAnalyzer_analyze_def URLAnalyzer_analyze_def opt_has_content_def
      has_content_def split: option.splits)

theorem absent_optional_fields_neutral_witness:
  "\<not> opt_has_content (Some '' '') \<and> \<not> opt_has_content (Some [])
   \<and> EmailAnalyzer_analyze (\<lambda>p s. True) (Some '' '')
        = Inr \<lparr>risk_factors = [], result_confidence = 1, analyzer_name = ''EmailAnalyzer''\<rparr>
   \<and> URLAnalyzer_analyze (\<lambda>p s. True) (\<lambda>s. Inl ValueError) (Some [])
        = Inr \<lparr>risk_factors = [], result_confidence = 1, analyzer_name = ''URLAnalyzer''\<rparr>"
  using absent_optional_fields_neutral
    [of "Some '' ''" "\<lambda>p s. True" "Some []" "\<lambda>p s. True" "\<lambda>s. Inl ValueError"]
  by (simp add: opt_has_content_def has_content_def py_strip_def py_isspace_def)

subsection \<open>Telegram against LinkedIn: rounding and arithmetic\<close>








subsection \<open>Telegram against LinkedIn: what the analyzers can return\<close>









































subsection \<open>Telegram against LinkedIn: the score of one category\<close>












































subsection \<open>Telegram against LinkedIn: the two requests compared\<close>



end
